theory Spec2Isabelle
  imports Complex_Main "HOL-Library.Sublist"
begin

section \<open>The goodbye classifier of \<^verbatim>\<open>vocode/streaming/utils/goodbye_model.py\<close>\<close>

text \<open>
  The module is embedded function by function. Conventions:
  \<^item> A finite Python float is the \<^typ>\<open>real\<close> number it denotes; comparisons and maxima
    of floats are exact. The one operation of the module that rounds, the product
    \<^verbatim>\<open>@\<close> of \<^verbatim>\<open>numpy\<close>, is a parameter \<open>D\<close>: \<open>D u c\<close> is the float that \<^verbatim>\<open>numpy\<close> computes
    for the product of the vector \<open>u\<close> with the column \<open>c\<close>, whatever its rounding and
    order of summation.
  \<^item> Every effect on the outside of the process goes through a \<open>world\<close> value that is
    passed in and returned: the module attribute \<^verbatim>\<open>openai.api_key\<close>, the environment,
    the contents of the key-value store, the files and the existing directories, and a
    trace of the external operations performed, in order.
  \<^item> A raised exception is the \<open>Inl\<close> branch of the result; the world returned with it is
    the world at the moment of the raise.
  \<^item> \<^verbatim>\<open>await f(...)\<close> runs the model of \<^verbatim>\<open>f\<close>. A call \<^verbatim>\<open>f(...)\<close> of an
    \<^verbatim>\<open>async def\<close> that is not awaited runs nothing: its value is a coroutine object.
\<close>

subsection \<open>Constants\<close>

text \<open>The float written \<^verbatim>\<open>0.9\<close>: the double nearest to nine tenths, slightly above it.\<close>

definition SIMILARITY_THRESHOLD :: real where
  "SIMILARITY_THRESHOLD = 8106479329266893 / 9007199254740992"

definition EMBEDDING_SIZE :: nat where
  "EMBEDDING_SIZE = 1536"

definition GOODBYE_PHRASES :: "string list" where
  "GOODBYE_PHRASES =
     [''bye'', ''goodbye'', ''see you'', ''see you later'', ''talk to you later'',
      ''talk to you soon'', ''have a good day'', ''have a good night'']"

subsection \<open>Values\<close>

text \<open>
  A two-dimensional \<^verbatim>\<open>numpy\<close> array of shape \<open>(nrows, length columns)\<close>, held by columns;
  every column of an array has \<open>nrows\<close> entries.
\<close>

record ndarray =
  nrows :: nat
  columns :: "real list list"

text \<open>The call of an \<^verbatim>\<open>async def\<close> method that has not been awaited, with its argument.\<close>

datatype coroutine = From_redis string | From_path string

text \<open>The values that the attribute \<^verbatim>\<open>goodbye_embeddings\<close> can hold.\<close>

datatype pyval = PyNone | NdArray ndarray | Coroutine coroutine

datatype numpy_error =
    Ambiguous_truth_value
  | Broadcast_mismatch
  | Matmul_operand
  | Matmul_shape
  | Zero_size_reduction

datatype error =
    AssertionError string
  | ValueError string
  | NumpyError numpy_error
  | FileNotFoundError string
  | ProviderError string

datatype RedisConfigManager = RedisConfigManager

record GoodbyeModel =
  embeddings_cache_path :: string
  goodbye_embeddings :: pyval
  config_manager :: "RedisConfigManager option"
  goodbye_phrases :: "string list"

subsection \<open>The world outside the instance\<close>

text \<open>
  One request to \<^verbatim>\<open>openai.Embedding.acreate\<close>: the keyword arguments in insertion order,
  and the module-level credential in force when the request is made.
\<close>

record request =
  credential :: "string option"
  params :: "(string \<times> string) list"

datatype event =
    Provider_call request
  | Redis_get string
  | Redis_save string
  | Path_exists string
  | Np_load string
  | Np_save string
  | Print string

record world =
  api_key :: "string option"
  environ :: "string \<rightharpoonup> string"
  redis :: "string \<rightharpoonup> ndarray"
  files :: "string \<rightharpoonup> ndarray"
  dirs :: "string list"
  trace :: "event list"

text \<open>The embedding service: a deterministic answer to each request.\<close>

type_synonym provider = "request \<Rightarrow> error + real list"

text \<open>The product of a vector with a column, as \<^verbatim>\<open>numpy\<close> computes it in floats.\<close>

type_synonym kernel = "real list \<Rightarrow> real list \<Rightarrow> real"

definition emit :: "event \<Rightarrow> world \<Rightarrow> world" where
  "emit ev w = w\<lparr>trace := trace w @ [ev]\<rparr>"

text \<open>
  Modelled from the spec: \<^verbatim>\<open>vocode.getenv\<close> is not part of the sources at hand. It reads
  a name from the configuration of the process, here the environment of the world;
  an unset name gives \<^verbatim>\<open>None\<close>.
\<close>

definition getenv :: "world \<Rightarrow> string \<Rightarrow> string option" where
  "getenv w name = environ w name"

text \<open>Truth value of an optional string, and Python's \<^verbatim>\<open>a or b\<close> on such values.\<close>

fun truthy :: "string option \<Rightarrow> bool" where
  "truthy None = False"
| "truthy (Some s) = (s \<noteq> [])"

definition py_or :: "string option \<Rightarrow> string option \<Rightarrow> string option" where
  "py_or a b = (if truthy a then a else b)"

subsection \<open>Strings\<close>

text \<open>
  Texts are strings over the code points 0--255. There \<^verbatim>\<open>str.lower\<close> adds 32 to the
  capitals 65--90 and 192--222 (but not to the sign 215), and \<^verbatim>\<open>str.strip\<close> removes the
  leading and trailing white space: the code points 9--13, 28--32, 133 and 160.
\<close>

definition lower_char :: "char \<Rightarrow> char" where
  "lower_char c =
     (let n = (of_char c :: nat) in
      if (65 \<le> n \<and> n \<le> 90) \<or> (192 \<le> n \<and> n \<le> 222 \<and> n \<noteq> 215) then char_of (n + 32)
      else c)"

definition lower :: "string \<Rightarrow> string" where
  "lower s = map lower_char s"

definition isspace :: "char \<Rightarrow> bool" where
  "isspace c =
     (let n = (of_char c :: nat) in
      (9 \<le> n \<and> n \<le> 13) \<or> (28 \<le> n \<and> n \<le> 32) \<or> n = 133 \<or> n = 160)"

definition strip :: "string \<Rightarrow> string" where
  "strip s = rev (dropWhile isspace (rev (dropWhile isspace s)))"

text \<open>\<^verbatim>\<open>sub in s\<close> on strings: \<open>sub\<close> occurs in \<open>s\<close> as a contiguous run.\<close>

definition contains :: "string \<Rightarrow> string \<Rightarrow> bool" where
  "contains sub s = sublist sub s"

subsection \<open>The \<^verbatim>\<open>numpy\<close> operations used\<close>

text \<open>
  \<^verbatim>\<open>np.empty((r, n))\<close>: the entries are arbitrary; the model fills them with 0.
\<close>

definition np_empty :: "nat \<Rightarrow> nat \<Rightarrow> ndarray" where
  "np_empty r n = \<lparr>nrows = r, columns = replicate n (replicate r 0)\<rparr>"

text \<open>
  \<^verbatim>\<open>a[:, i] = v\<close> for a one-dimensional \<open>v\<close>: \<open>v\<close> must have as many entries as the column,
  or exactly one entry, which is then broadcast over the column.
\<close>

definition set_column :: "ndarray \<Rightarrow> nat \<Rightarrow> real list \<Rightarrow> error + ndarray" where
  "set_column a i v =
     (if length v = nrows a then Inr (a\<lparr>columns := (columns a)[i := v]\<rparr>)
      else if length v = 1 then Inr (a\<lparr>columns := (columns a)[i := replicate (nrows a) (hd v)]\<rparr>)
      else Inl (NumpyError Broadcast_mismatch))"

text \<open>
  \<^verbatim>\<open>embedding @ m\<close> for a one-dimensional \<open>embedding\<close>: one product per column of a
  two-dimensional array, computed by the kernel \<open>D\<close>; an operand that is no array is
  refused.
\<close>

fun matmul :: "kernel \<Rightarrow> real list \<Rightarrow> pyval \<Rightarrow> error + real list" where
  "matmul D u (NdArray a) =
     (if length u = nrows a then Inr (map (D u) (columns a))
      else Inl (NumpyError Matmul_shape))"
| "matmul D u PyNone = Inl (NumpyError Matmul_operand)"
| "matmul D u (Coroutine c) = Inl (NumpyError Matmul_operand)"

fun np_max :: "real list \<Rightarrow> error + real" where
  "np_max [] = Inl (NumpyError Zero_size_reduction)"
| "np_max (x # xs) = Inr (fold max xs x)"

text \<open>
  Truth value of a Python value, as \<^verbatim>\<open>if v:\<close> computes it: an array with more than
  one entry has none, an array with one entry has that entry's, an array with no entry
  is false.
\<close>

fun truth_value :: "pyval \<Rightarrow> error + bool" where
  "truth_value PyNone = Inr False"
| "truth_value (Coroutine c) = Inr True"
| "truth_value (NdArray a) =
     (if nrows a * length (columns a) = 0 then Inr False
      else if nrows a * length (columns a) = 1 then Inr (hd (hd (columns a)) \<noteq> 0)
      else Inl (NumpyError Ambiguous_truth_value))"

subsection \<open>\<^verbatim>\<open>GoodbyeModel.__init__\<close>\<close>

definition init ::
  "string \<Rightarrow> string option \<Rightarrow> RedisConfigManager option \<Rightarrow> string list \<Rightarrow> world
     \<Rightarrow> (error + GoodbyeModel) \<times> world" where
  "init cache_path openai_api_key cm phrases w =
     (let w' = w\<lparr>api_key := py_or openai_api_key (getenv w ''OPENAI_API_KEY'')\<rparr> in
      if \<not> truthy (api_key w')
      then (Inl (ValueError ''OPENAI_API_KEY must be set in environment or passed in''), w')
      else (Inr \<lparr>embeddings_cache_path = cache_path, goodbye_embeddings = PyNone,
                 config_manager = cm, goodbye_phrases = phrases\<rparr>, w'))"

subsection \<open>\<^verbatim>\<open>create_embedding\<close>\<close>

definition request_for :: "world \<Rightarrow> string \<Rightarrow> request" where
  "request_for w text =
     (let params = [(''input'', text)];
          engine = getenv w ''AZURE_OPENAI_TEXT_EMBEDDING_ENGINE''
      in \<lparr>credential = api_key w,
          params = (if truthy engine then params @ [(''engine'', the engine)]
                    else params @ [(''model'', ''text-embedding-ada-002'')])\<rparr>)"

definition create_embedding ::
  "provider \<Rightarrow> GoodbyeModel \<Rightarrow> string \<Rightarrow> world \<Rightarrow> (error + real list) \<times> world" where
  "create_embedding P self text w =
     (P (request_for w text), emit (Provider_call (request_for w text)) w)"

subsection \<open>\<^verbatim>\<open>create_embeddings\<close>\<close>

fun create_embeddings_loop ::
  "provider \<Rightarrow> GoodbyeModel \<Rightarrow> (nat \<times> string) list \<Rightarrow> ndarray \<Rightarrow> world
     \<Rightarrow> (error + ndarray) \<times> world" where
  "create_embeddings_loop P self [] embeddings w = (Inr embeddings, w)"
| "create_embeddings_loop P self ((i, goodbye_phrase) # rest) embeddings w =
     (case create_embedding P self goodbye_phrase w of
        (Inl e, w') \<Rightarrow> (Inl e, w')
      | (Inr v, w') \<Rightarrow>
          (case set_column embeddings i v of
             Inl e \<Rightarrow> (Inl e, w')
           | Inr embeddings' \<Rightarrow> create_embeddings_loop P self rest embeddings' w'))"

definition create_embeddings ::
  "provider \<Rightarrow> GoodbyeModel \<Rightarrow> world \<Rightarrow> (error + ndarray) \<times> world" where
  "create_embeddings P self w =
     (let w1 = emit (Print ''Creating embeddings...'') w;
          size = EMBEDDING_SIZE;
          embeddings = np_empty size (length (goodbye_phrases self))
      in create_embeddings_loop P self (List.enumerate 0 (goodbye_phrases self)) embeddings w1)"

subsection \<open>The cache: \<^verbatim>\<open>_from_redis\<close>, \<^verbatim>\<open>_from_path\<close>, \<^verbatim>\<open>load_or_create_embeddings\<close>\<close>

text \<open>
  Modelled from the spec: the class \<^verbatim>\<open>RedisConfigManager\<close> is not part of the sources at
  hand. Its two operations are the store boundary
  \<^verbatim>\<open>get(key) -> Optional<Matrix>\<close> and \<^verbatim>\<open>put(key, matrix) -> void\<close>; the matrix is the
  array that \<^verbatim>\<open>_from_redis\<close> hands to \<^verbatim>\<open>save_goodbye_embeddings\<close>. The properties below
  use the store only on a miss.
\<close>

definition get_goodbye_embeddings :: "string \<Rightarrow> world \<Rightarrow> pyval \<times> world" where
  "get_goodbye_embeddings key w =
     ((case redis w key of None \<Rightarrow> PyNone | Some a \<Rightarrow> NdArray a), emit (Redis_get key) w)"

definition save_goodbye_embeddings :: "string \<Rightarrow> ndarray \<Rightarrow> world \<Rightarrow> world" where
  "save_goodbye_embeddings key a w = emit (Redis_save key) (w\<lparr>redis := (redis w)(key \<mapsto> a)\<rparr>)"

text \<open>\<^verbatim>\<open>np.save\<close> appends \<^verbatim>\<open>.npy\<close> to a file name that does not end with it.\<close>

definition npy_name :: "string \<Rightarrow> string" where
  "npy_name path = (if suffix ''.npy'' path then path else path @ ''.npy'')"

text \<open>
  \<^verbatim>\<open>os.path.dirname\<close>: the part of the path up to its last slash, without trailing
  slashes unless it consists of slashes only; empty for a path without slash.
\<close>

definition dirname :: "string \<Rightarrow> string" where
  "dirname path =
     (let head = rev (dropWhile (\<lambda>c. c \<noteq> CHR ''/'') (rev path)) in
      if head \<noteq> [] \<and> \<not> list_all (\<lambda>c. c = CHR ''/'') head
      then rev (dropWhile (\<lambda>c. c = CHR ''/'') (rev head))
      else head)"

text \<open>
  \<^verbatim>\<open>np.save\<close> opens the file for writing, which needs its directory to exist (the
  empty directory name is the current directory); otherwise it raises and nothing is
  written.
\<close>

definition np_save :: "string \<Rightarrow> ndarray \<Rightarrow> world \<Rightarrow> error option \<times> world" where
  "np_save path a w =
     (let file = npy_name path in
      if dirname file = [] \<or> dirname file \<in> set (dirs w)
      then (None, emit (Np_save file) (w\<lparr>files := (files w)(file \<mapsto> a)\<rparr>))
      else (Some (FileNotFoundError file), w))"

text \<open>The body of \<^verbatim>\<open>_from_redis\<close>: what awaiting the coroutine does.\<close>

definition from_redis ::
  "provider \<Rightarrow> GoodbyeModel \<Rightarrow> string \<Rightarrow> world \<Rightarrow> (error + pyval) \<times> world" where
  "from_redis P self key w =
     (if config_manager self = None then (Inr PyNone, w)
      else
        (case get_goodbye_embeddings key w of
           (cached, w1) \<Rightarrow>
             (case truth_value cached of
                Inl e \<Rightarrow> (Inl e, w1)
              | Inr True \<Rightarrow> (Inr cached, w1)
              | Inr False \<Rightarrow>
                  (case create_embeddings P self w1 of
                     (Inl e, w2) \<Rightarrow> (Inl e, w2)
                   | (Inr embeddings, w2) \<Rightarrow>
                       (Inr (NdArray embeddings), save_goodbye_embeddings key embeddings w2)))))"

text \<open>The body of \<^verbatim>\<open>_from_path\<close>.\<close>

definition from_path ::
  "provider \<Rightarrow> GoodbyeModel \<Rightarrow> string \<Rightarrow> world \<Rightarrow> (error + pyval) \<times> world" where
  "from_path P self path w =
     (let w1 = emit (Path_exists path) w in
      case files w path of
        Some a \<Rightarrow> (Inr (NdArray a), emit (Np_load path) w1)
      | None \<Rightarrow>
          (case create_embeddings P self w1 of
             (Inl e, w2) \<Rightarrow> (Inl e, w2)
           | (Inr embeddings, w2) \<Rightarrow>
               (case np_save path embeddings w2 of
                  (Some e, w3) \<Rightarrow> (Inl e, w3)
                | (None, w3) \<Rightarrow> (Inr (NdArray embeddings), w3))))"

text \<open>
  \<^verbatim>\<open>load_or_create_embeddings\<close> returns the result of calling \<^verbatim>\<open>_from_redis\<close> or
  \<^verbatim>\<open>_from_path\<close> without awaiting it: a coroutine object, and nothing has run.
\<close>

definition load_or_create_embeddings ::
  "provider \<Rightarrow> GoodbyeModel \<Rightarrow> string \<Rightarrow> string \<Rightarrow> world \<Rightarrow> (error + pyval) \<times> world" where
  "load_or_create_embeddings P self path key w =
     (if config_manager self \<noteq> None \<and> key \<noteq> []
      then (Inr (Coroutine (From_redis key)), w)
      else (Inr (Coroutine (From_path path)), w))"

definition initialize_embeddings ::
  "provider \<Rightarrow> GoodbyeModel \<Rightarrow> world \<Rightarrow> (error + GoodbyeModel) \<times> world" where
  "initialize_embeddings P self w =
     (case load_or_create_embeddings P self
             (embeddings_cache_path self @ ''/goodbye_embeddings.npy'') ''default'' w of
        (Inl e, w') \<Rightarrow> (Inl e, w')
      | (Inr v, w') \<Rightarrow> (Inr (self\<lparr>goodbye_embeddings := v\<rparr>), w'))"

subsection \<open>\<^verbatim>\<open>is_goodbye\<close>\<close>

definition is_goodbye ::
  "kernel \<Rightarrow> provider \<Rightarrow> GoodbyeModel \<Rightarrow> string \<Rightarrow> world \<Rightarrow> (error + bool) \<times> world" where
  "is_goodbye D P self text w =
     (if goodbye_embeddings self = PyNone
      then (Inl (AssertionError ''Embeddings not initialized''), w)
      else if contains ''bye'' (lower text) then (Inr True, w)
      else
        (case create_embedding P self (lower (strip text)) w of
           (Inl e, w') \<Rightarrow> (Inl e, w')
         | (Inr embedding, w') \<Rightarrow>
             (case matmul D embedding (goodbye_embeddings self) of
                Inl e \<Rightarrow> (Inl e, w')
              | Inr similarity_results \<Rightarrow>
                  (case np_max similarity_results of
                     Inl e \<Rightarrow> (Inl e, w')
                   | Inr m \<Rightarrow> (Inr (m > SIMILARITY_THRESHOLD), w')))))"

subsection \<open>Example inputs\<close>

text \<open>
  The scenario of the specification: reference phrases \<open>bye\<close> and \<open>see you\<close>, a mocked
  service under which \<open>talk to you later\<close> is close to \<open>see you\<close> and every other text is
  far from both. The entries are 0, 1, 1/4 and 15/16, on which sums and products of
  floats are exact, so that the exact product is the kernel.
\<close>

definition exact_product :: kernel where
  "exact_product u c = sum_list (map2 (*) u c)"

definition scenario_matrix :: ndarray where
  "scenario_matrix = \<lparr>nrows = 2, columns = [[1, 0], [0, 1]]\<rparr>"

definition scenario_provider :: provider where
  "scenario_provider rq =
     (if map_of (params rq) ''input'' = Some ''talk to you later'' then Inr [0, 15 / 16]
      else Inr [1 / 4, 0])"

definition scenario_world :: world where
  "scenario_world =
     \<lparr>api_key = Some ''sk-test'', environ = Map.empty, redis = Map.empty, files = Map.empty,
      dirs = [''cache''], trace = []\<rparr>"

definition scenario_model :: GoodbyeModel where
  "scenario_model =
     \<lparr>embeddings_cache_path = ''cache'', goodbye_embeddings = NdArray scenario_matrix,
      config_manager = None, goodbye_phrases = [''bye'', ''see you'']\<rparr>"

text \<open>A freshly constructed instance, before any initialisation.\<close>

definition fresh_model :: GoodbyeModel where
  "fresh_model =
     \<lparr>embeddings_cache_path = ''cache'', goodbye_embeddings = PyNone,
      config_manager = None, goodbye_phrases = [''bye'', ''see you'']\<rparr>"

text \<open>
  Services that answer with vectors of the full embedding size: one whose vector depends
  on the text, one that fails on the phrase \<open>see you\<close>.
\<close>

definition length_provider :: provider where
  "length_provider rq =
     (case map_of (params rq) ''input'' of
        None \<Rightarrow> Inl (ProviderError ''no input'')
      | Some t \<Rightarrow> Inr (replicate EMBEDDING_SIZE (real (length t))))"

definition flaky_provider :: provider where
  "flaky_provider rq =
     (if map_of (params rq) ''input'' = Some ''see you'' then Inl (ProviderError ''timeout'')
      else Inr (replicate EMBEDDING_SIZE 1))"



text \<open>The scenario's world configured for a named engine.\<close>

definition azure_world :: world where
  "azure_world =
     scenario_world\<lparr>environ := [''AZURE_OPENAI_TEXT_EMBEDDING_ENGINE'' \<mapsto> ''my-engine'']\<rparr>"

text \<open>The part of a request that selects the model or the engine.\<close>

definition selection :: "request \<Rightarrow> (string \<times> string) list" where
  "selection rq = filter (\<lambda>kv. fst kv \<noteq> ''input'') (params rq)"

section \<open>Properties\<close>

lemma np_max_eq_Max:
  assumes "xs \<noteq> []"
  shows "np_max xs = Inr (Max (set xs))"
proof -
  from assms obtain x ys where xs: "xs = x # ys"
    by (cases xs) auto
  have "fold max ys x = Max (set (x # ys))"
    by (simp only: Max.set_eq_fold)
  with xs show ?thesis by simp
qed

subsection \<open>Frame lemmas\<close>

lemma emit_fields [simp]:
  "api_key (emit ev w) = api_key w"
  "environ (emit ev w) = environ w"
  "redis (emit ev w) = redis w"
  "files (emit ev w) = files w"
  "dirs (emit ev w) = dirs w"
  "trace (emit ev w) = trace w @ [ev]"
  by (simp_all add: emit_def)

lemma request_for_trace [simp]: "request_for (w\<lparr>trace := t\<rparr>) text = request_for w text"
  by (simp add: request_for_def getenv_def)

lemma request_for_emit [simp]: "request_for (emit ev w) text = request_for w text"
  by (simp add: emit_def)

subsection \<open>The loop of \<^verbatim>\<open>create_embeddings\<close>\<close>

text \<open>
  When the service answers every phrase with a vector of the height of the array, the
  loop writes the answers into consecutive columns, in the order of the phrases, and
  makes one request per phrase, in that order.
\<close>

lemma loop_ok:
  assumes "\<forall>p\<in>set xs. P (request_for w p) = Inr (vec p) \<and> length (vec p) = nrows emb"
      and "n + length xs \<le> length (columns emb)"
  shows "create_embeddings_loop P self (List.enumerate n xs) emb w =
     (Inr (emb\<lparr>columns := take n (columns emb) @ map vec xs @ drop (n + length xs) (columns emb)\<rparr>),
      w\<lparr>trace := trace w @ map (\<lambda>p. Provider_call (request_for w p)) xs\<rparr>)"
  using assms
proof (induction xs arbitrary: n emb w)
  case Nil
  then show ?case by simp
next
  case (Cons x xs)
  let ?emb = "emb\<lparr>columns := (columns emb)[n := vec x]\<rparr>"
  let ?w = "emit (Provider_call (request_for w x)) w"
  from Cons.prems have n: "n < length (columns emb)" by simp
  have step: "create_embeddings_loop P self (List.enumerate n (x # xs)) emb w =
      create_embeddings_loop P self (List.enumerate (Suc n) xs) ?emb ?w"
    using Cons.prems by (simp add: create_embedding_def set_column_def)
  have ih: "create_embeddings_loop P self (List.enumerate (Suc n) xs) ?emb ?w =
     (Inr (?emb\<lparr>columns := take (Suc n) (columns ?emb) @ map vec xs
                     @ drop (Suc n + length xs) (columns ?emb)\<rparr>),
      ?w\<lparr>trace := trace ?w @ map (\<lambda>p. Provider_call (request_for ?w p)) xs\<rparr>)"
    using Cons.prems by (intro Cons.IH) simp_all
  have cols: "take (Suc n) (columns ?emb) @ map vec xs @ drop (Suc n + length xs) (columns ?emb)
      = take n (columns emb) @ map vec (x # xs) @ drop (n + length (x # xs)) (columns emb)"
    using n by (simp add: take_Suc_conv_app_nth)
  show ?case
    unfolding step ih cols by (simp add: emit_def)
qed

text \<open>
  When the service fails on a phrase after answering the phrases before it, the loop
  stops there with that error; the phrases after it are never requested.
\<close>

lemma loop_fail:
  assumes "\<forall>q\<in>set pre. P (request_for w q) = Inr (vec q) \<and> length (vec q) = nrows emb"
      and "P (request_for w p) = Inl e"
  shows "create_embeddings_loop P self (List.enumerate n (pre @ p # post)) emb w =
     (Inl e, w\<lparr>trace := trace w @ map (\<lambda>q. Provider_call (request_for w q)) (pre @ [p])\<rparr>)"
  using assms
proof (induction pre arbitrary: n emb w)
  case Nil
  then show ?case by (simp add: create_embedding_def emit_def)
next
  case (Cons x xs)
  let ?emb = "emb\<lparr>columns := (columns emb)[n := vec x]\<rparr>"
  let ?w = "emit (Provider_call (request_for w x)) w"
  have step: "create_embeddings_loop P self (List.enumerate n ((x # xs) @ p # post)) emb w =
      create_embeddings_loop P self (List.enumerate (Suc n) (xs @ p # post)) ?emb ?w"
    using Cons.prems by (simp add: create_embedding_def set_column_def)
  have ih: "create_embeddings_loop P self (List.enumerate (Suc n) (xs @ p # post)) ?emb ?w =
     (Inl e, ?w\<lparr>trace := trace ?w @ map (\<lambda>q. Provider_call (request_for ?w q)) (xs @ [p])\<rparr>)"
    using Cons.prems by (intro Cons.IH) simp_all
  show ?case
    unfolding step ih by (simp add: emit_def)
qed

subsection \<open>Evaluation of the example texts\<close>

lemma bye_in_example: "contains ''bye'' (lower ''Good BYE now'')"
  by code_simp

lemma no_bye_in_later: "\<not> contains ''bye'' (lower ''talk to you later'')"
  by code_simp

lemma no_bye_in_time: "\<not> contains ''bye'' (lower ''what time is it'')"
  by code_simp

lemma normal_later: "lower (strip ''talk to you later'') = ''talk to you later''"
  by code_simp

lemma normal_time: "lower (strip ''what time is it'') = ''what time is it''"
  by code_simp

subsection \<open>The claims\<close>

text \<open>
  C2. When the lowercased text contains \<open>bye\<close> and the attribute holds anything but
  \<^verbatim>\<open>None\<close>, \<open>is_goodbye\<close> returns true and leaves the world as it was: no request is
  made to the embedding service.
\<close>

theorem is_goodbye_fast_path:
  assumes "goodbye_embeddings self \<noteq> PyNone" and "contains ''bye'' (lower text)"
  shows "is_goodbye D P self text w = (Inr True, w)"
  using assms by (simp add: is_goodbye_def)

theorem is_goodbye_fast_path_witness:
  "is_goodbye exact_product scenario_provider scenario_model ''Good BYE now'' scenario_world
     = (Inr True, scenario_world)"
proof -
  have h1: "goodbye_embeddings scenario_model \<noteq> PyNone"
    by (simp add: scenario_model_def)
  show ?thesis
    by (rule is_goodbye_fast_path [OF h1 bye_in_example])
qed

text \<open>
  When the attribute does hold an array with at least one column, and the service
  answers with a vector of the height of the array, \<open>is_goodbye\<close> compares the largest
  product with the threshold, strictly.
\<close>

lemma is_goodbye_on_matrix:
  assumes state: "goodbye_embeddings self = NdArray a"
      and cols: "columns a \<noteq> []"
      and slow: "\<not> contains ''bye'' (lower text)"
      and emb: "fst (create_embedding P self (lower (strip text)) w) = Inr e"
      and shape: "length e = nrows a"
  shows "fst (is_goodbye D P self text w)
           = Inr (Max (set (map (D e) (columns a))) > SIMILARITY_THRESHOLD)"
proof -
  obtain w' where ce: "create_embedding P self (lower (strip text)) w = (Inr e, w')"
    using emb by (cases "create_embedding P self (lower (strip text)) w") simp
  have mx: "np_max (map (D e) (columns a)) = Inr (Max (set (map (D e) (columns a))))"
    using cols by (intro np_max_eq_Max) simp
  show ?thesis
    using state slow shape by (simp add: is_goodbye_def ce mx)
qed

lemma scenario_embedding:
  "fst (create_embedding scenario_provider scenario_model ''talk to you later'' scenario_world)
     = Inr [0, 15 / 16]"
  by (simp add: create_embedding_def scenario_provider_def request_for_def getenv_def
        scenario_world_def)

lemma scenario_scores:
  "Max (set (map (exact_product [0, 15 / 16]) (columns scenario_matrix))) = 15 / 16"
  by (simp add: scenario_matrix_def exact_product_def)

text \<open>
  In the scenario, with the reference matrix in the attribute, \<open>talk to you later\<close> is a
  goodbye.
\<close>

lemma scenario_with_matrix:
  "fst (is_goodbye exact_product scenario_provider scenario_model ''talk to you later''
         scenario_world) = Inr True"
proof -
  have h1: "goodbye_embeddings scenario_model = NdArray scenario_matrix"
    by (simp add: scenario_model_def)
  have h2: "columns scenario_matrix \<noteq> []"
    by (simp add: scenario_matrix_def)
  have h4: "fst (create_embedding scenario_provider scenario_model
                  (lower (strip ''talk to you later'')) scenario_world) = Inr [0, 15 / 16]"
    by (simp only: normal_later scenario_embedding)
  have h5: "length [0, 15 / 16 :: real] = nrows scenario_matrix"
    by (simp add: scenario_matrix_def)
  show ?thesis
    unfolding is_goodbye_on_matrix [OF h1 h2 no_bye_in_later h4 h5] scenario_scores
    by (simp add: SIMILARITY_THRESHOLD_def)
qed

text \<open>
  C1. For a classifier initialised by \<open>initialize_embeddings\<close>, \<open>is_goodbye\<close> returns no
  boolean on the slow path, whatever the products with the reference columns would be:
  the attribute holds a coroutine object instead of the reference matrix, so the call
  ends in an error.
\<close>

theorem initialized_classifier_gives_no_score:
  assumes "\<not> contains ''bye'' (lower text)"
  shows "\<forall>b. fst (is_goodbye D P (projr (fst (initialize_embeddings P self w))) text w')
              \<noteq> Inr b"
  using assms
  by (simp add: is_goodbye_def initialize_embeddings_def load_or_create_embeddings_def
      create_embedding_def split: sum.splits)

theorem initialized_classifier_gives_no_score_witness:
  "fst (is_goodbye exact_product scenario_provider
         (projr (fst (initialize_embeddings scenario_provider
                        (scenario_model\<lparr>goodbye_embeddings := PyNone\<rparr>) scenario_world)))
         ''talk to you later'' scenario_world)
     \<noteq> Inr True"
  using initialized_classifier_gives_no_score [OF no_bye_in_later]
  by blast

subsection \<open>Building the matrix\<close>

lemma create_embeddings_ok:
  assumes "\<forall>q\<in>set (goodbye_phrases self).
             P (request_for w q) = Inr (vec q) \<and> length (vec q) = EMBEDDING_SIZE"
  shows "create_embeddings P self w =
     (Inr \<lparr>nrows = EMBEDDING_SIZE, columns = map vec (goodbye_phrases self)\<rparr>,
      w\<lparr>trace := trace w @ Print ''Creating embeddings...''
                  # map (\<lambda>q. Provider_call (request_for w q)) (goodbye_phrases self)\<rparr>)"
proof -
  let ?w1 = "emit (Print ''Creating embeddings...'') w"
  let ?emb = "np_empty EMBEDDING_SIZE (length (goodbye_phrases self))"
  have a: "\<forall>p\<in>set (goodbye_phrases self).
             P (request_for ?w1 p) = Inr (vec p) \<and> length (vec p) = nrows ?emb"
    using assms by (simp add: np_empty_def)
  have b: "0 + length (goodbye_phrases self) \<le> length (columns ?emb)"
    by (simp add: np_empty_def)
  show ?thesis
    unfolding create_embeddings_def Let_def loop_ok [OF a b]
    by (simp add: np_empty_def emit_def)
qed

lemma create_embeddings_fail:
  assumes "goodbye_phrases self = pre @ p # post"
      and "\<forall>q\<in>set pre. P (request_for w q) = Inr (vec q) \<and> length (vec q) = EMBEDDING_SIZE"
      and "P (request_for w p) = Inl e"
  shows "create_embeddings P self w =
     (Inl e, w\<lparr>trace := trace w @ Print ''Creating embeddings...''
                  # map (\<lambda>q. Provider_call (request_for w q)) (pre @ [p])\<rparr>)"
proof -
  let ?w1 = "emit (Print ''Creating embeddings...'') w"
  let ?emb = "np_empty EMBEDDING_SIZE (length (goodbye_phrases self))"
  have a: "\<forall>q\<in>set pre. P (request_for ?w1 q) = Inr (vec q) \<and> length (vec q) = nrows ?emb"
    using assms(2) by (simp add: np_empty_def)
  have b: "P (request_for ?w1 p) = Inl e"
    using assms(3) by simp
  have "create_embeddings P self w =
          create_embeddings_loop P self (List.enumerate 0 (pre @ p # post)) ?emb ?w1"
    by (simp add: create_embeddings_def Let_def assms(1))
  also have "\<dots> = (Inl e, ?w1\<lparr>trace := trace ?w1
                       @ map (\<lambda>q. Provider_call (request_for ?w1 q)) (pre @ [p])\<rparr>)"
    by (rule loop_fail [OF a b])
  finally show ?thesis
    by (simp add: emit_def)
qed

text \<open>
  On a miss of the file cache with a successful build, the array is written and returned
  when the directory of the file exists; otherwise \<^verbatim>\<open>np.save\<close> raises, and no file is
  written.
\<close>

lemma from_path_miss:
  assumes ok: "\<forall>q\<in>set (goodbye_phrases self).
                 P (request_for w q) = Inr (vec q) \<and> length (vec q) = EMBEDDING_SIZE"
      and miss: "files w path = None"
  shows "fst (from_path P self path w) =
           (if dirname (npy_name path) = [] \<or> dirname (npy_name path) \<in> set (dirs w)
            then Inr (NdArray \<lparr>nrows = EMBEDDING_SIZE, columns = map vec (goodbye_phrases self)\<rparr>)
            else Inl (FileNotFoundError (npy_name path)))"
    and "files (snd (from_path P self path w)) =
           (if dirname (npy_name path) = [] \<or> dirname (npy_name path) \<in> set (dirs w)
            then (files w)(npy_name path \<mapsto>
                   \<lparr>nrows = EMBEDDING_SIZE, columns = map vec (goodbye_phrases self)\<rparr>)
            else files w)"
proof -
  let ?w1 = "emit (Path_exists path) w"
  have v: "\<forall>q\<in>set (goodbye_phrases self).
             P (request_for ?w1 q) = Inr (vec q) \<and> length (vec q) = EMBEDDING_SIZE"
    using ok by simp
  show "fst (from_path P self path w) =
           (if dirname (npy_name path) = [] \<or> dirname (npy_name path) \<in> set (dirs w)
            then Inr (NdArray \<lparr>nrows = EMBEDDING_SIZE, columns = map vec (goodbye_phrases self)\<rparr>)
            else Inl (FileNotFoundError (npy_name path)))"
    using miss
    by (simp add: from_path_def Let_def create_embeddings_ok [OF v] np_save_def)
  show "files (snd (from_path P self path w)) =
           (if dirname (npy_name path) = [] \<or> dirname (npy_name path) \<in> set (dirs w)
            then (files w)(npy_name path \<mapsto>
                   \<lparr>nrows = EMBEDDING_SIZE, columns = map vec (goodbye_phrases self)\<rparr>)
            else files w)"
    using miss
    by (simp add: from_path_def Let_def create_embeddings_ok [OF v] np_save_def)
qed

lemma dirname_cache_file: "dirname ''cache/goodbye_embeddings.npy'' = ''cache''"
  by code_simp

text \<open>
  Whatever its outcome, the build adds to the trace the diagnostic and then requests
  for some of the phrases, made in the world it started in; it changes nothing else.
\<close>

lemma loop_trace:
  "\<exists>qs. snd (create_embeddings_loop P self ips emb w) =
          w\<lparr>trace := trace w @ map (\<lambda>q. Provider_call (request_for w q)) qs\<rparr>"
proof (induction ips arbitrary: emb w)
  case Nil
  have "snd (create_embeddings_loop P self [] emb w) =
          w\<lparr>trace := trace w @ map (\<lambda>q. Provider_call (request_for w q)) []\<rparr>"
    by simp
  then show ?case by blast
next
  case (Cons ip ips)
  obtain i p where ip: "ip = (i, p)" by (cases ip)
  let ?w = "emit (Provider_call (request_for w p)) w"
  show ?case
  proof (cases "P (request_for w p)")
    case (Inl e)
    then have "snd (create_embeddings_loop P self (ip # ips) emb w) =
          w\<lparr>trace := trace w @ map (\<lambda>q. Provider_call (request_for w q)) [p]\<rparr>"
      by (simp add: ip create_embedding_def emit_def)
    then show ?thesis by blast
  next
    case (Inr v)
    show ?thesis
    proof (cases "set_column emb i v")
      case (Inl e)
      with Inr have "snd (create_embeddings_loop P self (ip # ips) emb w) =
          w\<lparr>trace := trace w @ map (\<lambda>q. Provider_call (request_for w q)) [p]\<rparr>"
        by (simp add: ip create_embedding_def emit_def)
      then show ?thesis by blast
    next
      case (Inr emb')
      from Cons.IH [of emb' ?w] obtain qs where
        "snd (create_embeddings_loop P self ips emb' ?w) =
           ?w\<lparr>trace := trace ?w @ map (\<lambda>q. Provider_call (request_for ?w q)) qs\<rparr>"
        by blast
      with Inr \<open>P (request_for w p) = Inr v\<close>
      have "snd (create_embeddings_loop P self (ip # ips) emb w) =
          w\<lparr>trace := trace w @ map (\<lambda>q. Provider_call (request_for w q)) (p # qs)\<rparr>"
        by (simp add: ip create_embedding_def emit_def)
      then show ?thesis by blast
    qed
  qed
qed

lemma create_embeddings_trace:
  "\<exists>qs. trace (snd (create_embeddings P self w)) =
          trace w @ Print ''Creating embeddings...''
            # map (\<lambda>q. Provider_call (request_for w q)) qs"
proof -
  let ?w1 = "emit (Print ''Creating embeddings...'') w"
  obtain qs where "snd (create_embeddings_loop P self (List.enumerate 0 (goodbye_phrases self))
        (np_empty EMBEDDING_SIZE (length (goodbye_phrases self))) ?w1) =
          ?w1\<lparr>trace := trace ?w1 @ map (\<lambda>q. Provider_call (request_for ?w1 q)) qs\<rparr>"
    using loop_trace by blast
  then have "trace (snd (create_embeddings P self w)) =
          trace w @ Print ''Creating embeddings...''
            # map (\<lambda>q. Provider_call (request_for w q)) qs"
    by (simp add: create_embeddings_def Let_def)
  then show ?thesis by blast
qed

text \<open>
  C3. \<open>initialize_embeddings\<close> stores what \<open>load_or_create_embeddings\<close> returns, and that is
  the coroutine object of \<^verbatim>\<open>_from_redis\<close> or \<^verbatim>\<open>_from_path\<close>, which nobody awaits: the
  attribute never holds an array afterwards, and the world is untouched (no cache was
  read, no embedding requested).
\<close>

theorem initialize_embeddings_stores_coroutine:
  "initialize_embeddings P self w =
     (Inr (self\<lparr>goodbye_embeddings :=
              Coroutine (if config_manager self \<noteq> None then From_redis ''default''
                         else From_path (embeddings_cache_path self @ ''/goodbye_embeddings.npy''))\<rparr>),
      w)
   \<and> (\<forall>a. goodbye_embeddings (projr (fst (initialize_embeddings P self w))) \<noteq> NdArray a)"
  by (simp add: initialize_embeddings_def load_or_create_embeddings_def)

text \<open>
  C4. \<open>load_or_create_embeddings\<close> chooses between the store and the file by the handle
  and the key, but runs neither flow: the trace, the store and the files are as before
  the call.
\<close>

theorem load_or_create_embeddings_runs_nothing:
  "load_or_create_embeddings P self path key w =
     (Inr (Coroutine (if config_manager self \<noteq> None \<and> key \<noteq> [] then From_redis key
                      else From_path path)), w)
   \<and> trace (snd (load_or_create_embeddings P self path key w)) = trace w
   \<and> redis (snd (load_or_create_embeddings P self path key w)) = redis w
   \<and> files (snd (load_or_create_embeddings P self path key w)) = files w"
  by (simp add: load_or_create_embeddings_def)

text \<open>
  C8. The choice between the default model and a named engine is a function of the
  configuration alone (the variable \<^verbatim>\<open>AZURE_OPENAI_TEXT_EMBEDDING_ENGINE\<close>): a call of
  \<open>create_embedding\<close> leaves the configuration as it is, its request selects the engine
  named there, or the default model when none is named, and every request made under
  the same configuration, for any text and by any instance, selects the same. So do all
  requests of one build.
\<close>

theorem selection_is_static:
  "environ (snd (create_embedding P self t w)) = environ w
   \<and> snd (create_embedding P self t w) = emit (Provider_call (request_for w t)) w
   \<and> selection (request_for w t) =
       (if truthy (getenv w ''AZURE_OPENAI_TEXT_EMBEDDING_ENGINE'')
        then [(''engine'', the (getenv w ''AZURE_OPENAI_TEXT_EMBEDDING_ENGINE''))]
        else [(''model'', ''text-embedding-ada-002'')])
   \<and> (environ w' = environ w \<longrightarrow>
         selection (request_for w' t') = selection (request_for w t))
   \<and> (\<forall>rq. Provider_call rq \<in> set (drop (length (trace w))
                                       (trace (snd (create_embeddings P self w)))) \<longrightarrow>
         selection rq = selection (request_for w t))"
proof -
  have sel: "selection (request_for v u) =
       (if truthy (getenv v ''AZURE_OPENAI_TEXT_EMBEDDING_ENGINE'')
        then [(''engine'', the (getenv v ''AZURE_OPENAI_TEXT_EMBEDDING_ENGINE''))]
        else [(''model'', ''text-embedding-ada-002'')])" for v u
    by (simp add: request_for_def selection_def Let_def)
  have same: "selection (request_for v u) = selection (request_for w t)"
    if "environ v = environ w" for v u
    using that by (simp add: sel getenv_def)
  have c1: "environ (snd (create_embedding P self t w)) = environ w"
    by (simp add: create_embedding_def)
  have c2: "snd (create_embedding P self t w) = emit (Provider_call (request_for w t)) w"
    by (simp add: create_embedding_def)
  have c4: "environ w' = environ w \<longrightarrow>
         selection (request_for w' t') = selection (request_for w t)"
    using same by blast
  obtain qs where tr: "trace (snd (create_embeddings P self w)) =
      trace w @ Print ''Creating embeddings...'' # map (\<lambda>q. Provider_call (request_for w q)) qs"
    using create_embeddings_trace by blast
  have dr: "drop (length (trace w)) (trace (snd (create_embeddings P self w))) =
      Print ''Creating embeddings...'' # map (\<lambda>q. Provider_call (request_for w q)) qs"
    by (simp add: tr)
  have build: "\<forall>rq. Provider_call rq \<in> set (drop (length (trace w))
                                       (trace (snd (create_embeddings P self w)))) \<longrightarrow>
         selection rq = selection (request_for w t)"
  proof (intro allI impI)
    fix rq
    assume "Provider_call rq \<in> set (drop (length (trace w))
                                       (trace (snd (create_embeddings P self w))))"
    then have "Provider_call rq \<in> set (map (\<lambda>q. Provider_call (request_for w q)) qs)"
      unfolding dr by simp
    then obtain q where rq: "rq = request_for w q"
      by auto
    show "selection rq = selection (request_for w t)"
      unfolding rq by (rule same [OF refl])
  qed
  show ?thesis
    by (intro conjI c1 c2 c4 build sel)
qed

lemma selection_under_azure:
  "selection (request_for azure_world ''bye'') = [(''engine'', ''my-engine'')]"
  by (simp add: request_for_def selection_def getenv_def azure_world_def scenario_world_def)

theorem selection_is_static_witness:
  "selection (request_for
      (snd (create_embedding scenario_provider fresh_model ''bye'' azure_world)) ''see you'')
     = [(''engine'', ''my-engine'')]"
proof -
  let ?w' = "snd (create_embedding scenario_provider fresh_model ''bye'' azure_world)"
  from selection_is_static [where P = scenario_provider and self = fresh_model
      and t = "''bye''" and w = azure_world and w' = ?w' and t' = "''see you''"]
  have e: "environ ?w' = environ azure_world"
    and s: "environ ?w' = environ azure_world \<longrightarrow>
         selection (request_for ?w' ''see you'') = selection (request_for azure_world ''bye'')"
    by blast+
  from s e have "selection (request_for ?w' ''see you'') = selection (request_for azure_world ''bye'')"
    by (rule mp)
  then show ?thesis
    by (simp only: selection_under_azure)
qed

text \<open>
  C9. The constructor assigns the credential to the attribute \<^verbatim>\<open>api_key\<close> of the shared
  \<^verbatim>\<open>openai\<close> module: the argument when it is a non-empty string, and then construction
  succeeds; else the value of \<^verbatim>\<open>OPENAI_API_KEY\<close> in the environment, and when that is
  unset or empty too the constructor raises, having assigned it. Instances hold no
  credential of their own: after a construction with a non-empty argument, the next
  request of any instance carries that credential.
\<close>

theorem init_assigns_global_api_key:
  "(k \<noteq> [] \<longrightarrow>
      init cache_path (Some k) cm phrases w =
        (Inr \<lparr>embeddings_cache_path = cache_path, goodbye_embeddings = PyNone,
              config_manager = cm, goodbye_phrases = phrases\<rparr>,
         w\<lparr>api_key := Some k\<rparr>))
   \<and> (key = None \<or> key = Some [] \<longrightarrow>
        api_key (snd (init cache_path key cm phrases w)) = environ w ''OPENAI_API_KEY'')
   \<and> ((key = None \<or> key = Some [])
        \<and> (environ w ''OPENAI_API_KEY'' = None \<or> environ w ''OPENAI_API_KEY'' = Some []) \<longrightarrow>
        fst (init cache_path key cm phrases w) =
          Inl (ValueError ''OPENAI_API_KEY must be set in environment or passed in''))
   \<and> (k \<noteq> [] \<longrightarrow>
        snd (create_embedding P other t (snd (init cache_path (Some k) cm phrases w)))
          = emit (Provider_call (request_for (snd (init cache_path (Some k) cm phrases w)) t))
              (snd (init cache_path (Some k) cm phrases w))
        \<and> credential (request_for (snd (init cache_path (Some k) cm phrases w)) t) = Some k)"
proof -
  have falsy: "\<not> truthy key" if "key = None \<or> key = Some []"
    using that by auto
  have a: "k \<noteq> [] \<longrightarrow>
      init cache_path (Some k) cm phrases w =
        (Inr \<lparr>embeddings_cache_path = cache_path, goodbye_embeddings = PyNone,
              config_manager = cm, goodbye_phrases = phrases\<rparr>,
         w\<lparr>api_key := Some k\<rparr>)"
    by (simp add: init_def Let_def py_or_def)
  have b: "key = None \<or> key = Some [] \<longrightarrow>
        api_key (snd (init cache_path key cm phrases w)) = environ w ''OPENAI_API_KEY''"
    using falsy by (simp add: init_def Let_def py_or_def getenv_def)
  have c: "(key = None \<or> key = Some [])
        \<and> (environ w ''OPENAI_API_KEY'' = None \<or> environ w ''OPENAI_API_KEY'' = Some []) \<longrightarrow>
        fst (init cache_path key cm phrases w) =
          Inl (ValueError ''OPENAI_API_KEY must be set in environment or passed in'')"
    using falsy by (auto simp: init_def Let_def py_or_def getenv_def)
  have d: "k \<noteq> [] \<longrightarrow>
        snd (create_embedding P other t (snd (init cache_path (Some k) cm phrases w)))
          = emit (Provider_call (request_for (snd (init cache_path (Some k) cm phrases w)) t))
              (snd (init cache_path (Some k) cm phrases w))
        \<and> credential (request_for (snd (init cache_path (Some k) cm phrases w)) t) = Some k"
    by (simp add: init_def Let_def py_or_def create_embedding_def request_for_def)
  from a b c d show ?thesis by blast
qed

theorem init_assigns_global_api_key_witness:
  "trace (snd (create_embedding scenario_provider
                 (projr (fst (init ''cache'' (Some ''sk-one'') None [''bye''] scenario_world)))
                 ''bye''
                 (snd (init ''other'' (Some ''sk-two'') None [''see you'']
                        (snd (init ''cache'' (Some ''sk-one'') None [''bye''] scenario_world))))))
     = [Provider_call \<lparr>credential = Some ''sk-two'',
                       params = [(''input'', ''bye''), (''model'', ''text-embedding-ada-002'')]\<rparr>]"
proof -
  let ?w1 = "snd (init ''cache'' (Some ''sk-one'') None [''bye''] scenario_world)"
  let ?m1 = "projr (fst (init ''cache'' (Some ''sk-one'') None [''bye''] scenario_world))"
  let ?w2 = "snd (init ''other'' (Some ''sk-two'') None [''see you''] ?w1)"
  have one: "''sk-one'' \<noteq> []" and two: "''sk-two'' \<noteq> []"
    by simp_all
  from init_assigns_global_api_key [where k = "''sk-one''" and cache_path = "''cache''"
      and cm = None and phrases = "[''bye'']" and w = scenario_world and key = None] one
  have i1: "init ''cache'' (Some ''sk-one'') None [''bye''] scenario_world =
        (Inr \<lparr>embeddings_cache_path = ''cache'', goodbye_embeddings = PyNone,
              config_manager = None, goodbye_phrases = [''bye'']\<rparr>,
         scenario_world\<lparr>api_key := Some ''sk-one''\<rparr>)"
    by blast
  then have w1: "?w1 = scenario_world\<lparr>api_key := Some ''sk-one''\<rparr>"
    by simp
  from init_assigns_global_api_key [where k = "''sk-two''" and cache_path = "''other''"
      and cm = None and phrases = "[''see you'']" and w = ?w1 and key = None
      and P = scenario_provider and other = ?m1 and t = "''bye''"] two
  have i2: "init ''other'' (Some ''sk-two'') None [''see you''] ?w1 =
        (Inr \<lparr>embeddings_cache_path = ''other'', goodbye_embeddings = PyNone,
              config_manager = None, goodbye_phrases = [''see you'']\<rparr>,
         ?w1\<lparr>api_key := Some ''sk-two''\<rparr>)"
    and call: "snd (create_embedding scenario_provider ?m1 ''bye'' ?w2)
                 = emit (Provider_call (request_for ?w2 ''bye'')) ?w2"
    and cred: "credential (request_for ?w2 ''bye'') = Some ''sk-two''"
    by blast+
  from i2 have w2: "?w2 = ?w1\<lparr>api_key := Some ''sk-two''\<rparr>"
    by simp
  have tr: "trace ?w2 = []"
    by (simp only: w2, simp only: w1) (simp add: scenario_world_def)
  have ps: "params (request_for ?w2 ''bye'')
              = [(''input'', ''bye''), (''model'', ''text-embedding-ada-002'')]"
    by (simp only: w2, simp only: w1) (simp add: request_for_def getenv_def scenario_world_def)
  have "request_for ?w2 ''bye'' = \<lparr>credential = Some ''sk-two'',
                       params = [(''input'', ''bye''), (''model'', ''text-embedding-ada-002'')]\<rparr>"
    using cred ps by (cases "request_for ?w2 ''bye''") simp
  with call tr show ?thesis
    by simp
qed

text \<open>
  C5. Without initialisation \<open>is_goodbye\<close> fails with the assertion error. After
  \<open>initialize_embeddings\<close> the assertion passes, but on the slow path no boolean comes
  back: the attribute holds a coroutine object, so the call fails with the error of the
  service or, when the service answers, in the matrix product.
\<close>

theorem classify_after_initialize:
  assumes "\<not> contains ''bye'' (lower text)"
  shows "is_goodbye D P (self\<lparr>goodbye_embeddings := PyNone\<rparr>) text w
           = (Inl (AssertionError ''Embeddings not initialized''), w)
       \<and> fst (is_goodbye D P (projr (fst (initialize_embeddings P self w))) text w')
           = (case P (request_for w' (lower (strip text))) of
                Inl e \<Rightarrow> Inl e
              | Inr v \<Rightarrow> Inl (NumpyError Matmul_operand))"
  using assms
  by (simp add: is_goodbye_def initialize_embeddings_def load_or_create_embeddings_def
      create_embedding_def split: sum.splits)

lemma scenario_answer_time:
  "scenario_provider (request_for scenario_world ''what time is it'') = Inr [1 / 4, 0]"
  by (simp add: scenario_provider_def request_for_def getenv_def scenario_world_def)

theorem classify_after_initialize_witness:
  "fst (is_goodbye exact_product scenario_provider
         (projr (fst (initialize_embeddings scenario_provider fresh_model scenario_world)))
         ''what time is it'' scenario_world)
     = Inl (NumpyError Matmul_operand)"
  using classify_after_initialize [OF no_bye_in_time, where D = exact_product
      and P = scenario_provider and self = fresh_model and w = scenario_world
      and w' = scenario_world]
  by (simp only: normal_time scenario_answer_time sum.case simp_thms)





text \<open>
  C7. When the service fails on one phrase (having answered the phrases before it), the
  build fails with that error, and so do \<^verbatim>\<open>_from_redis\<close> and \<^verbatim>\<open>_from_path\<close> on a miss:
  the only operations performed are the cache lookup, the diagnostic and the requests up
  to the failing one, and neither the store nor the files are written.
\<close>

theorem failed_build_writes_nothing:
  assumes phrases: "goodbye_phrases self = pre @ p # post"
      and ok: "\<forall>q\<in>set pre. \<exists>v. P (request_for w q) = Inr v \<and> length v = EMBEDDING_SIZE"
      and fail: "P (request_for w p) = Inl e"
  shows "fst (create_embeddings P self w) = Inl e
       \<and> (config_manager self \<noteq> None \<and> redis w key = None \<longrightarrow>
            from_redis P self key w =
              (Inl e, w\<lparr>trace := trace w @ Redis_get key # Print ''Creating embeddings...''
                           # map (\<lambda>q. Provider_call (request_for w q)) (pre @ [p])\<rparr>)
            \<and> redis (snd (from_redis P self key w)) = redis w
            \<and> files (snd (from_redis P self key w)) = files w)
       \<and> (files w path = None \<longrightarrow>
            from_path P self path w =
              (Inl e, w\<lparr>trace := trace w @ Path_exists path # Print ''Creating embeddings...''
                           # map (\<lambda>q. Provider_call (request_for w q)) (pre @ [p])\<rparr>)
            \<and> redis (snd (from_path P self path w)) = redis w
            \<and> files (snd (from_path P self path w)) = files w)"
proof -
  define vec where "vec q = projr (P (request_for w q))" for q
  have v: "\<forall>q\<in>set pre. P (request_for (emit ev w) q) = Inr (vec q)
             \<and> length (vec q) = EMBEDDING_SIZE" for ev
    using ok by (auto simp: vec_def)
  have v0: "\<forall>q\<in>set pre. P (request_for w q) = Inr (vec q) \<and> length (vec q) = EMBEDDING_SIZE"
    using ok by (auto simp: vec_def)
  have f: "P (request_for (emit ev w) p) = Inl e" for ev
    using fail by simp
  have build0: "fst (create_embeddings P self w) = Inl e"
    by (simp add: create_embeddings_fail [OF phrases v0 fail])
  have build: "create_embeddings P self (emit ev w) =
      (Inl e, w\<lparr>trace := trace w @ ev # Print ''Creating embeddings...''
                   # map (\<lambda>q. Provider_call (request_for w q)) (pre @ [p])\<rparr>)" for ev
    unfolding create_embeddings_fail [OF phrases v f]
    by (simp add: emit_def)
  have fr: "config_manager self \<noteq> None \<and> redis w key = None \<longrightarrow>
            from_redis P self key w =
              (Inl e, w\<lparr>trace := trace w @ Redis_get key # Print ''Creating embeddings...''
                           # map (\<lambda>q. Provider_call (request_for w q)) (pre @ [p])\<rparr>)"
    by (auto simp: from_redis_def get_goodbye_embeddings_def build)
  have fp: "files w path = None \<longrightarrow>
            from_path P self path w =
              (Inl e, w\<lparr>trace := trace w @ Path_exists path # Print ''Creating embeddings...''
                           # map (\<lambda>q. Provider_call (request_for w q)) (pre @ [p])\<rparr>)"
    by (auto simp: from_path_def Let_def build)
  show ?thesis
    using build0 fr fp by auto
qed

lemma flaky_bye:
  "\<forall>q\<in>set [''bye'']. \<exists>v. flaky_provider (request_for scenario_world q) = Inr v
      \<and> length v = EMBEDDING_SIZE"
  by (simp add: flaky_provider_def request_for_def getenv_def scenario_world_def)

lemma flaky_see_you:
  "flaky_provider (request_for scenario_world ''see you'') = Inl (ProviderError ''timeout'')"
  by (simp add: flaky_provider_def request_for_def getenv_def scenario_world_def)

theorem failed_build_writes_nothing_witness:
  "fst (from_path flaky_provider fresh_model ''cache/goodbye_embeddings.npy'' scenario_world)
     = Inl (ProviderError ''timeout'')
   \<and> files (snd (from_path flaky_provider fresh_model ''cache/goodbye_embeddings.npy''
        scenario_world)) = Map.empty"
proof -
  have h1: "goodbye_phrases fresh_model = [''bye''] @ ''see you'' # []"
    by (simp add: fresh_model_def)
  have h2: "files scenario_world ''cache/goodbye_embeddings.npy'' = None"
    by (simp add: scenario_world_def)
  have h3: "files scenario_world = Map.empty"
    by (simp add: scenario_world_def)
  show ?thesis
    using failed_build_writes_nothing [OF h1 flaky_bye flaky_see_you,
        of "''default''" "''cache/goodbye_embeddings.npy''"] h2 h3
    by simp
qed

text \<open>
  C10. With no phrases the build succeeds with an array of \<open>EMBEDDING_SIZE\<close> rows and no
  column. With that array in the attribute, every call of \<open>is_goodbye\<close> on the slow path
  fails: with the error of the service, in the matrix product when the answer has the
  wrong length, and otherwise in the maximum over no scores.
\<close>

theorem empty_phrase_list:
  assumes "goodbye_phrases self = []"
  shows "create_embeddings P self w
           = (Inr \<lparr>nrows = EMBEDDING_SIZE, columns = []\<rparr>,
              emit (Print ''Creating embeddings...'') w)
       \<and> (\<forall>text w'. \<not> contains ''bye'' (lower text) \<longrightarrow>
            fst (is_goodbye D P (self\<lparr>goodbye_embeddings :=
                                  NdArray \<lparr>nrows = EMBEDDING_SIZE, columns = []\<rparr>\<rparr>) text w')
              = (case P (request_for w' (lower (strip text))) of
                   Inl e \<Rightarrow> Inl e
                 | Inr v \<Rightarrow> if length v = EMBEDDING_SIZE
                            then Inl (NumpyError Zero_size_reduction)
                            else Inl (NumpyError Matmul_shape)))"
  using assms
  by (simp add: create_embeddings_def np_empty_def is_goodbye_def create_embedding_def
      split: sum.splits)

lemma length_answer_time:
  "length_provider (request_for scenario_world ''what time is it'')
     = Inr (replicate EMBEDDING_SIZE 15)"
  by (simp add: length_provider_def request_for_def getenv_def scenario_world_def)

theorem empty_phrase_list_witness:
  "create_embeddings length_provider (fresh_model\<lparr>goodbye_phrases := []\<rparr>) scenario_world
     = (Inr \<lparr>nrows = EMBEDDING_SIZE, columns = []\<rparr>,
        emit (Print ''Creating embeddings...'') scenario_world)
   \<and> fst (is_goodbye exact_product length_provider
           (fresh_model\<lparr>goodbye_phrases := [],
              goodbye_embeddings := NdArray \<lparr>nrows = EMBEDDING_SIZE, columns = []\<rparr>\<rparr>)
           ''what time is it'' scenario_world)
       = Inl (NumpyError Zero_size_reduction)"
proof -
  have h: "goodbye_phrases (fresh_model\<lparr>goodbye_phrases := []\<rparr>) = []"
    by simp
  from empty_phrase_list [OF h, where P = length_provider and w = scenario_world
      and D = exact_product]
  have a: "create_embeddings length_provider (fresh_model\<lparr>goodbye_phrases := []\<rparr>) scenario_world
             = (Inr \<lparr>nrows = EMBEDDING_SIZE, columns = []\<rparr>,
                emit (Print ''Creating embeddings...'') scenario_world)"
    and b: "\<not> contains ''bye'' (lower ''what time is it'') \<longrightarrow>
            fst (is_goodbye exact_product length_provider
                  (fresh_model\<lparr>goodbye_phrases := [],
                     goodbye_embeddings := NdArray \<lparr>nrows = EMBEDDING_SIZE, columns = []\<rparr>\<rparr>)
                  ''what time is it'' scenario_world)
              = (case length_provider (request_for scenario_world (lower (strip ''what time is it''))) of
                   Inl e \<Rightarrow> Inl e
                 | Inr v \<Rightarrow> if length v = EMBEDDING_SIZE
                            then Inl (NumpyError Zero_size_reduction)
                            else Inl (NumpyError Matmul_shape))"
    by blast+
  from b no_bye_in_time
  have "fst (is_goodbye exact_product length_provider
                  (fresh_model\<lparr>goodbye_phrases := [],
                     goodbye_embeddings := NdArray \<lparr>nrows = EMBEDDING_SIZE, columns = []\<rparr>\<rparr>)
                  ''what time is it'' scenario_world)
          = Inl (NumpyError Zero_size_reduction)"
    by (simp only: normal_time length_answer_time sum.case length_replicate simp_thms if_True)
  with a show ?thesis by simp
qed

end
